theory Spec2Isabelle
  imports Main
begin

section \<open>Overlay mount operations and package installation helpers\<close>

text \<open>
  A shallow embedding of \<^verbatim>\<open>craft_parts/overlays/overlay_manager.py\<close>: the class
  \<^verbatim>\<open>OverlayManager\<close> and the two context managers \<^verbatim>\<open>LayerMount\<close> and
  \<^verbatim>\<open>PackageCacheMount\<close>. Every method is a function from the state before the call
  (the manager object and the operating system) to the outcome of the call and the state after
  it. An outcome is \<open>Inl e\<close> when the method raises \<open>e\<close> and \<open>Inr v\<close> when it returns
  \<open>v\<close>; the state after a raise is the state at the point of the raise, as in Python.
\<close>

subsection \<open>Values\<close>

text \<open>A \<^verbatim>\<open>pathlib.Path\<close> is the list of its components; \<^verbatim>\<open>p / "etc"\<close> is \<open>p @ [''etc'']\<close>.\<close>

type_synonym path = "string list"

text \<open>
  The exceptions that occur. \<open>OtherError\<close> stands for whatever an external collaborator
  raises that is none of the others (a failed \<^verbatim>\<open>mount\<close> command, a package error).
\<close>

datatype exn =
    RuntimeError string
  | ValueError
  | IndexError
  | OSError string
  | SystemExit "int option"
  | OtherError string

fun is_SystemExit :: "exn \<Rightarrow> bool" where
  "is_SystemExit (SystemExit c) = True"
| "is_SystemExit e = False"

text \<open>
  \<^verbatim>\<open>ProjectInfo\<close> is not part of this file; the three properties that the manager reads
  are the fields of the record.
\<close>

record project_info =
  overlay_mount_dir :: path
  overlay_packages_dir :: path
  overlay_work_dir :: path

text \<open>
  \<^verbatim>\<open>OverlayFS\<close> (module \<^verbatim>\<open>overlay_fs\<close>) is not part of this file either. An object of the
  class is the record of its three constructor arguments; its methods \<^verbatim>\<open>mount\<close> and
  \<^verbatim>\<open>unmount\<close> are parameters of the model (see \<open>prims\<close> below).
\<close>

record overlayfs =
  lower_dirs :: "path list"
  upper_dir :: path
  work_dir :: path

subsection \<open>The operating system\<close>

text \<open>
  What a path names: a regular file with its content, a symbolic link with its target, a
  directory, or the whiteout that a union mount leaves in its upper directory where an entry
  of a lower directory has been removed.
\<close>

datatype node = Regular string | Symlink path | Directory | Whiteout

text \<open>
  The state outside the Python objects: the directory entries on disk, the union mounts that
  are active (the most recent first), and the identity of the running process
  (\<^verbatim>\<open>os.getpid()\<close>).
\<close>

record world =
  files :: "path \<rightharpoonup> node"
  mounts :: "(path \<times> overlayfs) list"
  pid :: nat

text \<open>
  Modelled from the spec: the merged view of a union mount, which is the kernel's and not code
  of this repository. A layer is "a directory contributing either read-only content (lower) or
  the sole writable surface (upper) to a merged filesystem view", and the lower directories
  are handed over with the one of highest precedence first. Under a mount point a relative
  path shows the entry of the first layer (upper, then the lowers in order) that has one; a
  whiteout hides the layers below it. Directory structure, permissions and time stamps are not
  modelled.
\<close>

fun merged :: "(path \<rightharpoonup> node) \<Rightarrow> path list \<Rightarrow> path \<Rightarrow> node option" where
  "merged f [] rel = None"
| "merged f (d # ds) rel =
     (case f (d @ rel) of
        None \<Rightarrow> merged f ds rel
      | Some Whiteout \<Rightarrow> None
      | Some n \<Rightarrow> Some n)"

definition active_mount :: "world \<Rightarrow> path \<Rightarrow> (path \<times> overlayfs) option" where
  "active_mount w p = find (\<lambda>(mp, fs). take (length mp) p = mp) (mounts w)"

definition lookup :: "world \<Rightarrow> path \<Rightarrow> node option" where
  "lookup w p =
     (case active_mount w p of
        None \<Rightarrow> files w p
      | Some (mp, fs) \<Rightarrow> merged (files w) (upper_dir fs # lower_dirs fs) (drop (length mp) p))"

text \<open>\<^verbatim>\<open>Path.is_symlink()\<close>: false for a path that does not exist.\<close>

definition is_symlink :: "path \<Rightarrow> world \<Rightarrow> bool" where
  "is_symlink p w = (case lookup w p of Some (Symlink t) \<Rightarrow> True | _ \<Rightarrow> False)"

text \<open>
  \<^verbatim>\<open>Path.unlink()\<close>. Through a union mount the removal lands on the upper directory: the
  entry there goes, and a whiteout takes its place when a lower directory still has one.
\<close>

definition unlink :: "path \<Rightarrow> world \<Rightarrow> (exn + unit) \<times> world" where
  "unlink p w =
     (case lookup w p of
        None \<Rightarrow> (Inl (OSError ''FileNotFoundError''), w)
      | Some Directory \<Rightarrow> (Inl (OSError ''IsADirectoryError''), w)
      | Some n \<Rightarrow>
         (case active_mount w p of
            None \<Rightarrow> (Inr (), w\<lparr>files := (files w)(p := None)\<rparr>)
          | Some (mp, fs) \<Rightarrow>
             (let rel = drop (length mp) p;
                  below = merged (files w) (lower_dirs fs) rel
              in (Inr (), w\<lparr>files := (files w)(upper_dir fs @ rel :=
                                (if below = None then None else Some Whiteout))\<rparr>))))"

text \<open>
  \<^verbatim>\<open>Path.touch()\<close>: creates an empty regular file where nothing exists. On an existing
  entry only the time stamp changes, which through a union mount copies the entry up.
\<close>

definition touch :: "path \<Rightarrow> world \<Rightarrow> (exn + unit) \<times> world" where
  "touch p w =
     (case active_mount w p of
        None \<Rightarrow>
         (case files w p of
            None \<Rightarrow> (Inr (), w\<lparr>files := (files w)(p \<mapsto> Regular [])\<rparr>)
          | Some n \<Rightarrow> (Inr (), w))
      | Some (mp, fs) \<Rightarrow>
         (let rel = drop (length mp) p in
          case lookup w p of
            None \<Rightarrow> (Inr (), w\<lparr>files := (files w)(upper_dir fs @ rel \<mapsto> Regular [])\<rparr>)
          | Some n \<Rightarrow> (Inr (), w\<lparr>files := (files w)(upper_dir fs @ rel \<mapsto> n)\<rparr>)))"

subsection \<open>External collaborators\<close>

text \<open>
  The calls that leave this file are parameters of the model: the two methods of
  \<^verbatim>\<open>OverlayFS\<close>, \<^verbatim>\<open>Path.mkdir(parents=True, exist_ok=True)\<close>, entering and leaving
  \<^verbatim>\<open>pychroot.Chroot\<close>, the three operations of \<^verbatim>\<open>packages.Repository\<close>, and
  \<^verbatim>\<open>shutil.rmtree(ignore_errors=True)\<close>, which does not raise. Each may change the world
  and each but the last may raise.
\<close>

record prims =
  ovl_mount :: "overlayfs \<Rightarrow> path \<Rightarrow> world \<Rightarrow> (exn + unit) \<times> world"
  ovl_unmount :: "overlayfs \<Rightarrow> world \<Rightarrow> (exn + unit) \<times> world"
  mkdir_p :: "path \<Rightarrow> world \<Rightarrow> (exn + unit) \<times> world"
  chroot_enter :: "path \<Rightarrow> world \<Rightarrow> (exn + unit) \<times> world"
  chroot_exit :: "path \<Rightarrow> exn option \<Rightarrow> world \<Rightarrow> (exn + bool) \<times> world"
  repo_refresh_packages_list :: "world \<Rightarrow> (exn + unit) \<times> world"
  repo_download_packages :: "string list \<Rightarrow> world \<Rightarrow> (exn + unit) \<times> world"
  repo_install_packages :: "string list \<Rightarrow> world \<Rightarrow> (exn + unit) \<times> world"
  rmtree :: "path \<Rightarrow> world \<Rightarrow> world"

subsection \<open>The \<^verbatim>\<open>with\<close> statement\<close>

text \<open>
  \<^verbatim>\<open>with cm: body\<close>. When \<^verbatim>\<open>__enter__\<close> raises, neither the body nor \<^verbatim>\<open>__exit__\<close> runs.
  Otherwise \<^verbatim>\<open>__exit__\<close> runs once, with the exception of the body if it raised one: an
  exception of \<^verbatim>\<open>__exit__\<close> itself replaces it, a true result swallows it, a false result
  lets it go on.
\<close>

definition py_with ::
  "('s \<Rightarrow> (exn + 'v) \<times> 's) \<Rightarrow> (exn option \<Rightarrow> 's \<Rightarrow> (exn + bool) \<times> 's) \<Rightarrow>
   ('v \<Rightarrow> 's \<Rightarrow> (exn + unit) \<times> 's) \<Rightarrow> 's \<Rightarrow> (exn + unit) \<times> 's" where
  "py_with enter exit body s =
     (case enter s of
        (Inl e, s1) \<Rightarrow> (Inl e, s1)
      | (Inr v, s1) \<Rightarrow>
         (case body v s1 of
            (Inr u, s2) \<Rightarrow>
             (case exit None s2 of
                (Inl e', s3) \<Rightarrow> (Inl e', s3)
              | (Inr b, s3) \<Rightarrow> (Inr (), s3))
          | (Inl e, s2) \<Rightarrow>
             (case exit (Some e) s2 of
                (Inl e', s3) \<Rightarrow> (Inl e', s3)
              | (Inr b, s3) \<Rightarrow> (if b then Inr () else Inl e, s3))))"

text \<open>\<^verbatim>\<open>contextlib.suppress(SystemExit)\<close>.\<close>

definition suppress_enter :: "world \<Rightarrow> (exn + unit) \<times> world" where
  "suppress_enter w = (Inr (), w)"

definition suppress_exit :: "exn option \<Rightarrow> world \<Rightarrow> (exn + bool) \<times> world" where
  "suppress_exit exc w = (Inr (case exc of None \<Rightarrow> False | Some e \<Rightarrow> is_SystemExit e), w)"

subsection \<open>\<^verbatim>\<open>OverlayManager\<close>\<close>

text \<open>
  The type \<open>'p\<close> is the class \<^verbatim>\<open>Part\<close>, which is not part of this file: two values of
  \<open>'p\<close> are equal when \<^verbatim>\<open>==\<close> holds of the two parts.
\<close>

record 'p overlay_manager =
  project_info :: project_info
  part_list :: "'p list"
  layer_dirs :: "path list"
  overlay_fs :: "overlayfs option"
  base_layer_dir :: "path option"

type_synonym 'p state = "'p overlay_manager \<times> world"

text \<open>\<^verbatim>\<open>__init__\<close>; the first argument is the property \<^verbatim>\<open>Part.part_layer_dir\<close>.\<close>

definition OverlayManager_init ::
  "('p \<Rightarrow> path) \<Rightarrow> project_info \<Rightarrow> 'p list \<Rightarrow> path option \<Rightarrow> 'p overlay_manager" where
  "OverlayManager_init part_layer_dir info parts base =
     \<lparr>project_info = info,
      part_list = parts,
      layer_dirs = map part_layer_dir parts,
      overlay_fs = None,
      base_layer_dir = base\<rparr>"

text \<open>\<^verbatim>\<open>list.index\<close>: the first position that holds the value, or \<^verbatim>\<open>ValueError\<close>.\<close>

fun index_of :: "'a list \<Rightarrow> 'a \<Rightarrow> nat option" where
  "index_of [] x = None"
| "index_of (y # ys) x = (if y = x then Some 0 else map_option Suc (index_of ys x))"

definition mount_layer :: "prims \<Rightarrow> 'p \<Rightarrow> bool \<Rightarrow> 'p state \<Rightarrow> (exn + unit) \<times> 'p state" where
  "mount_layer P part pkg_cache st =
     (case st of (m, w) \<Rightarrow>
       (case base_layer_dir m of
          None \<Rightarrow> (Inl (RuntimeError ''request to mount overlay without a base layer''), (m, w))
        | Some base \<Rightarrow>
           (let lowers = [base];
                lowers = (if pkg_cache
                          then lowers @ [overlay_packages_dir (project_info m)]
                          else lowers)
            in case index_of (part_list m) part of
                 None \<Rightarrow> (Inl ValueError, (m, w))
               | Some index \<Rightarrow>
                  (let lowers = lowers @ take index (layer_dirs m) in
                   if index < length (layer_dirs m) then
                     (let upper = layer_dirs m ! index;
                          lowers = rev lowers;
                          fs = \<lparr>lower_dirs = lowers, upper_dir = upper,
                                work_dir = overlay_work_dir (project_info m)\<rparr>;
                          m' = m\<lparr>overlay_fs := Some fs\<rparr>
                      in case ovl_mount P fs (overlay_mount_dir (project_info m)) w of
                           (r, w') \<Rightarrow> (r, (m', w')))
                   else (Inl IndexError, (m, w))))))"

definition mount_pkg_cache :: "prims \<Rightarrow> 'p state \<Rightarrow> (exn + unit) \<times> 'p state" where
  "mount_pkg_cache P st =
     (case st of (m, w) \<Rightarrow>
       (case base_layer_dir m of
          None \<Rightarrow>
           (Inl (RuntimeError
                  ''request to mount the overlay package cache without a base layer''), (m, w))
        | Some base \<Rightarrow>
           (let fs = \<lparr>lower_dirs = [base],
                      upper_dir = overlay_packages_dir (project_info m),
                      work_dir = overlay_work_dir (project_info m)\<rparr>;
                m' = m\<lparr>overlay_fs := Some fs\<rparr>
            in case ovl_mount P fs (overlay_mount_dir (project_info m)) w of
                 (r, w') \<Rightarrow> (r, (m', w')))))"

definition unmount :: "prims \<Rightarrow> 'p state \<Rightarrow> (exn + unit) \<times> 'p state" where
  "unmount P st =
     (case st of (m, w) \<Rightarrow>
       (case overlay_fs m of
          None \<Rightarrow> (Inl (RuntimeError ''filesystem is not mounted''), (m, w))
        | Some fs \<Rightarrow>
           (case ovl_unmount P fs w of
              (Inl e, w') \<Rightarrow> (Inl e, (m, w'))
            | (Inr u, w') \<Rightarrow> (Inr (), (m\<lparr>overlay_fs := None\<rparr>, w')))))"

fun mkdir_each :: "prims \<Rightarrow> path list \<Rightarrow> world \<Rightarrow> (exn + unit) \<times> world" where
  "mkdir_each P [] w = (Inr (), w)"
| "mkdir_each P (d # ds) w =
     (case mkdir_p P d w of
        (Inl e, w') \<Rightarrow> (Inl e, w')
      | (Inr u, w') \<Rightarrow> mkdir_each P ds w')"

definition mkdirs :: "prims \<Rightarrow> 'p state \<Rightarrow> (exn + unit) \<times> 'p state" where
  "mkdirs P st =
     (case st of (m, w) \<Rightarrow>
       (case mkdir_each P [overlay_mount_dir (project_info m),
                           overlay_packages_dir (project_info m),
                           overlay_work_dir (project_info m)] w of
          (r, w') \<Rightarrow> (r, (m, w'))))"

text \<open>
  The block \<^verbatim>\<open>with contextlib.suppress(SystemExit), pychroot.Chroot(mount_dir): body\<close>
  that the three package operations share.
\<close>

definition chroot_block ::
  "prims \<Rightarrow> path \<Rightarrow> (world \<Rightarrow> (exn + unit) \<times> world) \<Rightarrow> world \<Rightarrow> (exn + unit) \<times> world" where
  "chroot_block P mount_dir body =
     py_with (chroot_enter P mount_dir) (chroot_exit P mount_dir) (\<lambda>u. body)"

definition in_chroot ::
  "prims \<Rightarrow> path \<Rightarrow> (world \<Rightarrow> (exn + unit) \<times> world) \<Rightarrow> world \<Rightarrow> (exn + unit) \<times> world" where
  "in_chroot P mount_dir body =
     py_with suppress_enter suppress_exit (\<lambda>u. chroot_block P mount_dir body)"

definition refresh_packages_list :: "prims \<Rightarrow> 'p state \<Rightarrow> (exn + unit) \<times> 'p state" where
  "refresh_packages_list P st =
     (case st of (m, w) \<Rightarrow>
       (case overlay_fs m of
          None \<Rightarrow> (Inl (RuntimeError ''overlay filesystem not mounted''), (m, w))
        | Some fs \<Rightarrow>
           (let mount_dir = overlay_mount_dir (project_info m)
            in case in_chroot P mount_dir (repo_refresh_packages_list P) w of
                 (r, w') \<Rightarrow> (r, (m, w')))))"

definition download_packages ::
  "prims \<Rightarrow> string list \<Rightarrow> 'p state \<Rightarrow> (exn + unit) \<times> 'p state" where
  "download_packages P package_names st =
     (case st of (m, w) \<Rightarrow>
       (case overlay_fs m of
          None \<Rightarrow> (Inl (RuntimeError ''overlay filesystem not mounted''), (m, w))
        | Some fs \<Rightarrow>
           (let mount_dir = overlay_mount_dir (project_info m)
            in case in_chroot P mount_dir (repo_download_packages P package_names) w of
                 (r, w') \<Rightarrow> (r, (m, w')))))"

definition install_body :: "prims \<Rightarrow> string list \<Rightarrow> world \<Rightarrow> (exn + unit) \<times> world" where
  "install_body P package_names w =
     (case repo_install_packages P package_names w of
        (Inl e, w1) \<Rightarrow> (Inl e, w1)
      | (Inr u, w1) \<Rightarrow> (Inr (), rmtree P [''var'', ''cache''] w1))"

definition install_packages ::
  "prims \<Rightarrow> string list \<Rightarrow> 'p state \<Rightarrow> (exn + unit) \<times> 'p state" where
  "install_packages P package_names st =
     (case st of (m, w) \<Rightarrow>
       (case overlay_fs m of
          None \<Rightarrow> (Inl (RuntimeError ''overlay filesystem not mounted''), (m, w))
        | Some fs \<Rightarrow>
           (let mount_dir = overlay_mount_dir (project_info m)
            in case in_chroot P mount_dir (install_body P package_names) w of
                 (r, w') \<Rightarrow> (r, (m, w')))))"

definition resolv_conf :: "'p overlay_manager \<Rightarrow> path" where
  "resolv_conf m = overlay_mount_dir (project_info m) @ [''etc'', ''resolv.conf'']"

definition fix_resolv_conf :: "'p state \<Rightarrow> (exn + unit) \<times> 'p state" where
  "fix_resolv_conf st =
     (case st of (m, w) \<Rightarrow>
       (let resolv = resolv_conf m in
        if is_symlink resolv w then
          (case unlink resolv w of
             (Inl e, w1) \<Rightarrow> (Inl e, (m, w1))
           | (Inr u, w1) \<Rightarrow>
              (case touch resolv w1 of (r, w2) \<Rightarrow> (r, (m, w2))))
        else (Inr (), (m, w))))"

subsection \<open>\<^verbatim>\<open>LayerMount\<close>\<close>

text \<open>
  The session object without its reference to the manager, which is the manager of the
  state it runs on.
\<close>

record 'p layer_mount =
  lm_top_part :: 'p
  lm_pkg_cache :: bool
  lm_pid :: nat

definition LayerMount_init ::
  "prims \<Rightarrow> 'p \<Rightarrow> bool \<Rightarrow> 'p state \<Rightarrow> (exn + 'p layer_mount) \<times> 'p state" where
  "LayerMount_init P top_part pkg_cache st =
     (case mkdirs P st of
        (Inl e, st') \<Rightarrow> (Inl e, st')
      | (Inr u, st') \<Rightarrow>
         (Inr \<lparr>lm_top_part = top_part, lm_pkg_cache = pkg_cache, lm_pid = pid (snd st')\<rparr>,
          st'))"

definition LayerMount_enter ::
  "prims \<Rightarrow> 'p layer_mount \<Rightarrow> 'p state \<Rightarrow> (exn + 'p layer_mount) \<times> 'p state" where
  "LayerMount_enter P self st =
     (case mount_layer P (lm_top_part self) (lm_pkg_cache self) st of
        (Inl e, st1) \<Rightarrow> (Inl e, st1)
      | (Inr u, st1) \<Rightarrow>
         (case fix_resolv_conf st1 of
            (Inl e, st2) \<Rightarrow> (Inl e, st2)
          | (Inr u, st2) \<Rightarrow> (Inr self, st2)))"

definition LayerMount_exit ::
  "prims \<Rightarrow> 'p layer_mount \<Rightarrow> exn option \<Rightarrow> 'p state \<Rightarrow> (exn + bool) \<times> 'p state" where
  "LayerMount_exit P self exc st =
     (if pid (snd st) \<noteq> lm_pid self then (Inl (SystemExit None), st)
      else (case unmount P st of
              (Inl e, st') \<Rightarrow> (Inl e, st')
            | (Inr u, st') \<Rightarrow> (Inr False, st')))"

definition LayerMount_install_packages ::
  "prims \<Rightarrow> 'p layer_mount \<Rightarrow> string list \<Rightarrow> 'p state \<Rightarrow> (exn + unit) \<times> 'p state" where
  "LayerMount_install_packages P self package_names st = install_packages P package_names st"

subsection \<open>\<^verbatim>\<open>PackageCacheMount\<close>\<close>

record package_cache_mount =
  pcm_pid :: nat

definition PackageCacheMount_init ::
  "prims \<Rightarrow> 'p state \<Rightarrow> (exn + package_cache_mount) \<times> 'p state" where
  "PackageCacheMount_init P st =
     (case mkdirs P st of
        (Inl e, st') \<Rightarrow> (Inl e, st')
      | (Inr u, st') \<Rightarrow> (Inr \<lparr>pcm_pid = pid (snd st')\<rparr>, st'))"

definition PackageCacheMount_enter ::
  "prims \<Rightarrow> package_cache_mount \<Rightarrow> 'p state \<Rightarrow> (exn + package_cache_mount) \<times> 'p state" where
  "PackageCacheMount_enter P self st =
     (case mount_pkg_cache P st of
        (Inl e, st1) \<Rightarrow> (Inl e, st1)
      | (Inr u, st1) \<Rightarrow>
         (case fix_resolv_conf st1 of
            (Inl e, st2) \<Rightarrow> (Inl e, st2)
          | (Inr u, st2) \<Rightarrow> (Inr self, st2)))"

definition PackageCacheMount_exit ::
  "prims \<Rightarrow> package_cache_mount \<Rightarrow> exn option \<Rightarrow> 'p state \<Rightarrow> (exn + bool) \<times> 'p state" where
  "PackageCacheMount_exit P self exc st =
     (if pid (snd st) \<noteq> pcm_pid self then (Inl (SystemExit None), st)
      else (case unmount P st of
              (Inl e, st') \<Rightarrow> (Inl e, st')
            | (Inr u, st') \<Rightarrow> (Inr False, st')))"

definition PackageCacheMount_refresh_packages_list ::
  "prims \<Rightarrow> package_cache_mount \<Rightarrow> 'p state \<Rightarrow> (exn + unit) \<times> 'p state" where
  "PackageCacheMount_refresh_packages_list P self st = refresh_packages_list P st"

definition PackageCacheMount_download_packages ::
  "prims \<Rightarrow> package_cache_mount \<Rightarrow> string list \<Rightarrow> 'p state \<Rightarrow> (exn + unit) \<times> 'p state" where
  "PackageCacheMount_download_packages P self package_names st =
     download_packages P package_names st"

subsection \<open>A concrete environment\<close>

text \<open>
  Modelled from the spec: the union-mount primitive, whose code (\<^verbatim>\<open>OverlayFS\<close>) is not
  part of this file. It "mounts a merged view at a given mount point" and "tears down the
  merged view"; here both always return, and so does every other collaborator.
\<close>

fun drop_mount :: "overlayfs \<Rightarrow> (path \<times> overlayfs) list \<Rightarrow> (path \<times> overlayfs) list" where
  "drop_mount fs [] = []"
| "drop_mount fs ((mp, fs') # ms) = (if fs' = fs then ms else (mp, fs') # drop_mount fs ms)"

definition union_mount :: "overlayfs \<Rightarrow> path \<Rightarrow> world \<Rightarrow> (exn + unit) \<times> world" where
  "union_mount fs mountpoint w = (Inr (), w\<lparr>mounts := (mountpoint, fs) # mounts w\<rparr>)"

definition union_unmount :: "overlayfs \<Rightarrow> world \<Rightarrow> (exn + unit) \<times> world" where
  "union_unmount fs w = (Inr (), w\<lparr>mounts := drop_mount fs (mounts w)\<rparr>)"

definition returns :: "world \<Rightarrow> (exn + unit) \<times> world" where
  "returns w = (Inr (), w)"

definition raises :: "exn \<Rightarrow> world \<Rightarrow> (exn + unit) \<times> world" where
  "raises e w = (Inl e, w)"

definition leaves :: "exn option \<Rightarrow> world \<Rightarrow> (exn + bool) \<times> world" where
  "leaves exc w = (Inr False, w)"

definition no_rmtree :: "path \<Rightarrow> world \<Rightarrow> world" where
  "no_rmtree p w = w"

definition union_prims :: prims where
  "union_prims =
     \<lparr>ovl_mount = union_mount,
      ovl_unmount = union_unmount,
      mkdir_p = (\<lambda>p. returns),
      chroot_enter = (\<lambda>p. returns),
      chroot_exit = (\<lambda>p. leaves),
      repo_refresh_packages_list = returns,
      repo_download_packages = (\<lambda>names. returns),
      repo_install_packages = (\<lambda>names. returns),
      rmtree = no_rmtree\<rparr>"

text \<open>The same environment, with an unmount that fails.\<close>

definition busy_prims :: prims where
  "busy_prims = union_prims\<lparr>ovl_unmount := (\<lambda>fs. raises (OtherError ''target is busy''))\<rparr>"

text \<open>
  The same environment, where the package repository and the union mount end in
  \<^verbatim>\<open>SystemExit\<close>.
\<close>

definition exiting_prims :: prims where
  "exiting_prims =
     union_prims\<lparr>ovl_mount := (\<lambda>fs p. raises (SystemExit (Some 1))),
                 ovl_unmount := (\<lambda>fs. raises (SystemExit (Some 1))),
                 repo_refresh_packages_list := raises (SystemExit (Some 1)),
                 repo_download_packages := (\<lambda>names. raises (SystemExit (Some 1))),
                 repo_install_packages := (\<lambda>names. raises (SystemExit (Some 1)))\<rparr>"

text \<open>
  A project with the parts \<open>A\<close>, \<open>B\<close> and \<open>C\<close>, a part being its name, and a base
  layer whose \<^verbatim>\<open>etc/resolv.conf\<close> is a symbolic link.
\<close>

definition demo_info :: project_info where
  "demo_info =
     \<lparr>overlay_mount_dir = [''overlay'', ''overlay''],
      overlay_packages_dir = [''overlay'', ''packages''],
      overlay_work_dir = [''overlay'', ''work'']\<rparr>"

definition demo_layer_dir :: "string \<Rightarrow> path" where
  "demo_layer_dir name = [''parts'', name, ''layer'']"

definition demo_base :: path where
  "demo_base = [''base'']"

definition demo_manager :: "string overlay_manager" where
  "demo_manager =
     OverlayManager_init demo_layer_dir demo_info [''A'', ''B'', ''C''] (Some demo_base)"

definition demo_world :: world where
  "demo_world =
     \<lparr>files = [[''base'', ''etc'', ''resolv.conf''] \<mapsto>
                 Symlink [''run'', ''systemd'', ''resolve'', ''stub-resolv.conf'']],
      mounts = [],
      pid = 100\<rparr>"

text \<open>The state after the layer stack of \<open>A\<close> has been mounted.\<close>

definition demo_mounted :: "string state" where
  "demo_mounted = snd (mount_layer union_prims ''A'' False (demo_manager, demo_world))"

text \<open>
  Two sessions created by process 100, and a step that fails inside the scope of a session.
\<close>

definition demo_session :: "bool \<Rightarrow> string layer_mount" where
  "demo_session pkg_cache = \<lparr>lm_top_part = ''A'', lm_pkg_cache = pkg_cache, lm_pid = 100\<rparr>"

definition demo_cache_session :: package_cache_mount where
  "demo_cache_session = \<lparr>pcm_pid = 100\<rparr>"

definition failing_step :: "'a \<Rightarrow> string state \<Rightarrow> (exn + unit) \<times> string state" where
  "failing_step self st = (Inl (OtherError ''step failed''), st)"

text \<open>The resolver configuration file of the merged view, as a regular file.\<close>

definition demo_resolved :: world where
  "demo_resolved =
     demo_world\<lparr>files := (files demo_world)
       ([''overlay'', ''overlay'', ''etc'', ''resolv.conf''] \<mapsto> Regular ''nameserver 10.0.0.1'')\<rparr>"

section \<open>Properties\<close>

subsection \<open>Auxiliary facts\<close>

lemma index_of_first:
  "i < length xs \<Longrightarrow> xs ! i = x \<Longrightarrow> x \<notin> set (take i xs) \<Longrightarrow> index_of xs x = Some i"
proof (induction xs arbitrary: i)
  case Nil
  then show ?case by simp
next
  case (Cons y ys)
  show ?case
  proof (cases i)
    case 0
    with Cons.prems show ?thesis by simp
  next
    case (Suc j)
    with Cons.prems have "y \<noteq> x" "j < length ys" "ys ! j = x" "x \<notin> set (take j ys)"
      by auto
    with Cons.IH [of j] Suc show ?thesis by simp
  qed
qed

lemma mount_layer_records:
  assumes "mount_layer P part pkg_cache (m0, w0) = (Inr u, (m1, w1))"
  shows "\<exists>fs. overlay_fs m1 = Some fs"
proof (cases "base_layer_dir m0")
  case None
  with assms show ?thesis by (simp add: mount_layer_def)
next
  case (Some base)
  show ?thesis
  proof (cases "index_of (part_list m0) part")
    case None
    with Some assms show ?thesis by (simp add: mount_layer_def)
  next
    case (Some i)
    show ?thesis
    proof (cases "i < length (layer_dirs m0)")
      case False
      with Some \<open>base_layer_dir m0 = Some base\<close> assms show ?thesis
        by (simp add: mount_layer_def)
    next
      case True
      with Some \<open>base_layer_dir m0 = Some base\<close> assms show ?thesis
        by (simp add: mount_layer_def Let_def split: prod.splits) auto
    qed
  qed
qed

lemma index_of_Some:
  "index_of xs x = Some i \<Longrightarrow> i < length xs \<and> xs ! i = x \<and> x \<notin> set (take i xs)"
proof (induction xs arbitrary: i)
  case Nil
  then show ?case by simp
next
  case (Cons y ys)
  show ?case
  proof (cases "y = x")
    case True
    with Cons.prems show ?thesis by simp
  next
    case False
    with Cons.prems obtain j where j: "index_of ys x = Some j" "i = Suc j"
      by auto
    from Cons.IH [OF j(1)] False j(2) show ?thesis by auto
  qed
qed

lemma mount_layer_Some:
  assumes "base_layer_dir m = Some base" and "index_of (part_list m) part = Some i"
    and "i < length (layer_dirs m)"
  shows "mount_layer P part pkg_cache (m, w) =
     (let fs = \<lparr>lower_dirs = rev ([base]
                                 @ (if pkg_cache then [overlay_packages_dir (project_info m)] else [])
                                 @ take i (layer_dirs m)),
                upper_dir = layer_dirs m ! i,
                work_dir = overlay_work_dir (project_info m)\<rparr>
      in case ovl_mount P fs (overlay_mount_dir (project_info m)) w of
           (r, w') \<Rightarrow> (r, (m\<lparr>overlay_fs := Some fs\<rparr>, w')))"
  using assms by (simp add: mount_layer_def Let_def)

lemma mount_any_record:
  "fst (mount_layer P part pkg_cache (m\<lparr>overlay_fs := cur\<rparr>, w)) =
     fst (mount_layer P part pkg_cache (m\<lparr>overlay_fs := None\<rparr>, w))
 \<and> snd (snd (mount_layer P part pkg_cache (m\<lparr>overlay_fs := cur\<rparr>, w))) =
     snd (snd (mount_layer P part pkg_cache (m\<lparr>overlay_fs := None\<rparr>, w)))
 \<and> (fst (mount_layer P part pkg_cache (m\<lparr>overlay_fs := None\<rparr>, w)) = Inr () \<longrightarrow>
      mount_layer P part pkg_cache (m\<lparr>overlay_fs := cur\<rparr>, w) =
        mount_layer P part pkg_cache (m\<lparr>overlay_fs := None\<rparr>, w))
 \<and> fst (mount_pkg_cache P (m\<lparr>overlay_fs := cur\<rparr>, w)) =
     fst (mount_pkg_cache P (m\<lparr>overlay_fs := None\<rparr>, w))
 \<and> snd (snd (mount_pkg_cache P (m\<lparr>overlay_fs := cur\<rparr>, w))) =
     snd (snd (mount_pkg_cache P (m\<lparr>overlay_fs := None\<rparr>, w)))
 \<and> (fst (mount_pkg_cache P (m\<lparr>overlay_fs := None\<rparr>, w)) = Inr () \<longrightarrow>
      mount_pkg_cache P (m\<lparr>overlay_fs := cur\<rparr>, w) =
        mount_pkg_cache P (m\<lparr>overlay_fs := None\<rparr>, w))"
proof -
  have layer: "fst (mount_layer P part pkg_cache (m\<lparr>overlay_fs := cur\<rparr>, w)) =
        fst (mount_layer P part pkg_cache (m\<lparr>overlay_fs := None\<rparr>, w))
      \<and> snd (snd (mount_layer P part pkg_cache (m\<lparr>overlay_fs := cur\<rparr>, w))) =
        snd (snd (mount_layer P part pkg_cache (m\<lparr>overlay_fs := None\<rparr>, w)))
      \<and> (fst (mount_layer P part pkg_cache (m\<lparr>overlay_fs := None\<rparr>, w)) = Inr () \<longrightarrow>
          mount_layer P part pkg_cache (m\<lparr>overlay_fs := cur\<rparr>, w) =
            mount_layer P part pkg_cache (m\<lparr>overlay_fs := None\<rparr>, w))"
  proof (cases "base_layer_dir m")
    case None
    then show ?thesis by (simp add: mount_layer_def)
  next
    case (Some base)
    show ?thesis
    proof (cases "index_of (part_list m) part")
      case None
      with Some show ?thesis by (simp add: mount_layer_def)
    next
      case (Some i)
      show ?thesis
      proof (cases "i < length (layer_dirs m)")
        case False
        with Some \<open>base_layer_dir m = Some base\<close> show ?thesis
          by (simp add: mount_layer_def)
      next
        case True
        with Some \<open>base_layer_dir m = Some base\<close> show ?thesis
          by (simp add: mount_layer_Some Let_def split: prod.splits)
      qed
    qed
  qed
  have cache: "fst (mount_pkg_cache P (m\<lparr>overlay_fs := cur\<rparr>, w)) =
        fst (mount_pkg_cache P (m\<lparr>overlay_fs := None\<rparr>, w))
      \<and> snd (snd (mount_pkg_cache P (m\<lparr>overlay_fs := cur\<rparr>, w))) =
        snd (snd (mount_pkg_cache P (m\<lparr>overlay_fs := None\<rparr>, w)))
      \<and> (fst (mount_pkg_cache P (m\<lparr>overlay_fs := None\<rparr>, w)) = Inr () \<longrightarrow>
          mount_pkg_cache P (m\<lparr>overlay_fs := cur\<rparr>, w) =
            mount_pkg_cache P (m\<lparr>overlay_fs := None\<rparr>, w))"
    by (cases "base_layer_dir m")
       (simp_all add: mount_pkg_cache_def Let_def split: prod.splits)
  from layer cache show ?thesis by blast
qed

lemma index_of_None: "index_of xs x = None \<longleftrightarrow> x \<notin> set xs"
  by (induction xs) auto

lemma mount_layer_built:
  "mount_layer P part pkg_cache
     ((OverlayManager_init part_layer_dir info parts base)\<lparr>overlay_fs := cur\<rparr>, w) =
   (case base of
      None \<Rightarrow>
        (Inl (RuntimeError ''request to mount overlay without a base layer''),
         ((OverlayManager_init part_layer_dir info parts base)\<lparr>overlay_fs := cur\<rparr>, w))
    | Some b \<Rightarrow>
       (case index_of parts part of
          None \<Rightarrow>
            (Inl ValueError,
             ((OverlayManager_init part_layer_dir info parts base)\<lparr>overlay_fs := cur\<rparr>, w))
        | Some i \<Rightarrow>
           (let fs = \<lparr>lower_dirs = rev ([b]
                          @ (if pkg_cache then [overlay_packages_dir info] else [])
                          @ take i (map part_layer_dir parts)),
                      upper_dir = map part_layer_dir parts ! i,
                      work_dir = overlay_work_dir info\<rparr>
            in case ovl_mount P fs (overlay_mount_dir info) w of
                 (r, w') \<Rightarrow>
                   (r, ((OverlayManager_init part_layer_dir info parts base)
                          \<lparr>overlay_fs := Some fs\<rparr>, w')))))"
proof (cases base)
  case None
  then show ?thesis by (simp add: mount_layer_def OverlayManager_init_def)
next
  case (Some b)
  show ?thesis
  proof (cases "index_of parts part")
    case None
    with Some show ?thesis by (simp add: mount_layer_def OverlayManager_init_def)
  next
    case (Some i)
    then have "i < length parts" by (simp add: index_of_Some)
    with Some \<open>base = Some b\<close> show ?thesis
      by (simp add: mount_layer_def OverlayManager_init_def Let_def)
  qed
qed

lemma mount_pkg_cache_built:
  "mount_pkg_cache P
     ((OverlayManager_init part_layer_dir info parts base)\<lparr>overlay_fs := cur\<rparr>, w) =
   (case base of
      None \<Rightarrow>
        (Inl (RuntimeError ''request to mount the overlay package cache without a base layer''),
         ((OverlayManager_init part_layer_dir info parts base)\<lparr>overlay_fs := cur\<rparr>, w))
    | Some b \<Rightarrow>
       (let fs = \<lparr>lower_dirs = [b], upper_dir = overlay_packages_dir info,
                  work_dir = overlay_work_dir info\<rparr>
        in case ovl_mount P fs (overlay_mount_dir info) w of
             (r, w') \<Rightarrow>
               (r, ((OverlayManager_init part_layer_dir info parts base)
                      \<lparr>overlay_fs := Some fs\<rparr>, w'))))"
  by (cases base) (simp_all add: mount_pkg_cache_def OverlayManager_init_def Let_def)

lemma mount_layer_built_error:
  assumes "fst (mount_layer P part pkg_cache
            ((OverlayManager_init part_layer_dir info parts base)\<lparr>overlay_fs := cur\<rparr>, w)) = Inl e"
  shows "(base = None \<and> e = RuntimeError ''request to mount overlay without a base layer'')
       \<or> (base \<noteq> None \<and> part \<notin> set parts \<and> e = ValueError)
       \<or> (\<exists>b i. base = Some b \<and> index_of parts part = Some i
            \<and> fst (ovl_mount P
                  \<lparr>lower_dirs = rev ([b]
                     @ (if pkg_cache then [overlay_packages_dir info] else [])
                     @ take i (map part_layer_dir parts)),
                   upper_dir = map part_layer_dir parts ! i,
                   work_dir = overlay_work_dir info\<rparr>
                  (overlay_mount_dir info) w) = Inl e)"
proof (cases base)
  case None
  with assms show ?thesis by (simp add: mount_layer_built)
next
  case (Some b)
  show ?thesis
  proof (cases "index_of parts part")
    case None
    with Some assms show ?thesis
      by (simp add: mount_layer_built index_of_None)
  next
    case (Some i)
    with \<open>base = Some b\<close> assms show ?thesis
      by (cases pkg_cache) (auto simp: mount_layer_built Let_def split: prod.splits)
  qed
qed

lemma mount_pkg_cache_built_error:
  assumes "fst (mount_pkg_cache P
            ((OverlayManager_init part_layer_dir info parts base)\<lparr>overlay_fs := cur\<rparr>, w)) = Inl e"
  shows "(base = None
          \<and> e = RuntimeError ''request to mount the overlay package cache without a base layer'')
       \<or> (\<exists>b. base = Some b
            \<and> fst (ovl_mount P
                  \<lparr>lower_dirs = [b], upper_dir = overlay_packages_dir info,
                   work_dir = overlay_work_dir info\<rparr>
                  (overlay_mount_dir info) w) = Inl e)"
  using assms
  by (cases base) (simp_all add: mount_pkg_cache_built Let_def split: prod.splits)

lemma mount_layer_built_record:
  assumes "fst (mount_layer P part pkg_cache
            ((OverlayManager_init part_layer_dir info parts base)\<lparr>overlay_fs := cur\<rparr>, w)) = Inr ()"
  shows "\<exists>b i. base = Some b \<and> index_of parts part = Some i
          \<and> overlay_fs (fst (snd (mount_layer P part pkg_cache
               ((OverlayManager_init part_layer_dir info parts base)\<lparr>overlay_fs := cur\<rparr>, w)))) =
              Some \<lparr>lower_dirs = rev ([b]
                      @ (if pkg_cache then [overlay_packages_dir info] else [])
                      @ take i (map part_layer_dir parts)),
                    upper_dir = map part_layer_dir parts ! i,
                    work_dir = overlay_work_dir info\<rparr>"
proof (cases base)
  case None
  with assms show ?thesis by (simp add: mount_layer_built)
next
  case (Some b)
  show ?thesis
  proof (cases "index_of parts part")
    case None
    with Some assms show ?thesis by (simp add: mount_layer_built)
  next
    case (Some i)
    with \<open>base = Some b\<close> show ?thesis
      by (cases pkg_cache) (auto simp: mount_layer_built Let_def split: prod.splits)
  qed
qed

lemma mount_pkg_cache_built_record:
  assumes "fst (mount_pkg_cache P
            ((OverlayManager_init part_layer_dir info parts base)\<lparr>overlay_fs := cur\<rparr>, w)) = Inr ()"
  shows "\<exists>b. base = Some b
          \<and> overlay_fs (fst (snd (mount_pkg_cache P
               ((OverlayManager_init part_layer_dir info parts base)\<lparr>overlay_fs := cur\<rparr>, w)))) =
              Some \<lparr>lower_dirs = [b], upper_dir = overlay_packages_dir info,
                    work_dir = overlay_work_dir info\<rparr>"
  using assms
  by (cases base) (simp_all add: mount_pkg_cache_built Let_def split: prod.splits)

lemma mount_pkg_cache_records:
  assumes "mount_pkg_cache P (m0, w0) = (Inr u, (m1, w1))"
  shows "\<exists>fs. overlay_fs m1 = Some fs"
proof (cases "base_layer_dir m0")
  case None
  with assms show ?thesis by (simp add: mount_pkg_cache_def)
next
  case (Some base)
  with assms show ?thesis
    by (simp add: mount_pkg_cache_def Let_def split: prod.splits) auto
qed

lemma active_mount_files:
  "active_mount (w\<lparr>files := f\<rparr>) p = active_mount w p"
  by (simp add: active_mount_def)

lemma merged_upd_None:
  "merged f ds rel = None \<Longrightarrow> f k \<noteq> Some Whiteout \<Longrightarrow> merged (f(k := None)) ds rel = None"
proof (induction ds)
  case Nil
  then show ?case by simp
next
  case (Cons d ds)
  then show ?case
    by (cases "f (d @ rel)") (auto split: node.splits)
qed

lemma merged_upper_Whiteout:
  "f (u @ rel) = Some Whiteout \<Longrightarrow> merged f (u # ds) rel = None"
  by simp

lemma lookup_unlink:
  assumes "unlink p w = (Inr (), w')"
  shows "lookup w' p = None"
proof (cases "active_mount w p")
  case None
  with assms have "w' = w\<lparr>files := (files w)(p := None)\<rparr>"
    by (auto simp: unlink_def split: option.splits node.splits)
  with None show ?thesis
    by (simp add: lookup_def active_mount_files)
next
  case (Some a)
  obtain mp fs where a: "a = (mp, fs)" by (cases a)
  define rel where "rel = drop (length mp) p"
  define k where "k = upper_dir fs @ rel"
  define below where "below = merged (files w) (lower_dirs fs) rel"
  from assms obtain n where n: "lookup w p = Some n"
    by (auto simp: unlink_def split: option.splits)
  with Some a have seen: "merged (files w) (upper_dir fs # lower_dirs fs) rel = Some n"
    by (simp add: lookup_def rel_def)
  from assms Some a n
  have w': "w' = w\<lparr>files := (files w)(k := (if below = None then None else Some Whiteout))\<rparr>"
    by (auto simp: unlink_def Let_def rel_def k_def below_def split: node.splits)
  have "merged (files w') (upper_dir fs # lower_dirs fs) rel = None"
  proof (cases "below = None")
    case False
    with w' have "files w' (upper_dir fs @ rel) = Some Whiteout"
      by (simp add: k_def)
    then show ?thesis by (rule merged_upper_Whiteout)
  next
    case True
    from seen have "files w k \<noteq> Some Whiteout"
      by (auto simp: k_def)
    with True have "merged ((files w)(k := None)) (lower_dirs fs) rel = None"
      unfolding below_def by (rule merged_upd_None)
    with True w' show ?thesis
      by (simp add: k_def)
  qed
  with Some a w' show ?thesis
    by (simp add: lookup_def active_mount_files rel_def)
qed

lemma unlink_symlink:
  assumes "lookup w p = Some (Symlink t)"
  shows "\<exists>w'. unlink p w = (Inr (), w')"
proof (cases "active_mount w p")
  case None
  with assms show ?thesis by (simp add: unlink_def)
next
  case (Some a)
  obtain mp fs where "a = (mp, fs)" by (cases a)
  with Some assms show ?thesis by (simp add: unlink_def Let_def)
qed

lemma touch_creates:
  assumes "lookup w p = None"
  shows "\<exists>w'. touch p w = (Inr (), w') \<and> lookup w' p = Some (Regular [])"
proof (cases "active_mount w p")
  case None
  with assms show ?thesis
    by (simp add: touch_def lookup_def active_mount_files)
next
  case (Some a)
  obtain mp fs where "a = (mp, fs)" by (cases a)
  with Some assms show ?thesis
    by (simp add: touch_def lookup_def active_mount_files Let_def)
qed

lemma in_chroot_SystemExit:
  "chroot_block P d body w = (Inl (SystemExit c), w') \<Longrightarrow> in_chroot P d body w = (Inr (), w')"
  by (simp add: in_chroot_def py_with_def suppress_enter_def suppress_exit_def)

lemma in_chroot_other:
  "chroot_block P d body w = (Inl e, w') \<Longrightarrow> \<not> is_SystemExit e \<Longrightarrow>
   in_chroot P d body w = (Inl e, w')"
  by (simp add: in_chroot_def py_with_def suppress_enter_def suppress_exit_def)

lemma in_chroot_never_exits: "fst (in_chroot P d body w) \<noteq> Inl (SystemExit c)"
proof (cases "chroot_block P d body w")
  case (Pair r w')
  show ?thesis
  proof (cases r)
    case (Inl e)
    with Pair show ?thesis
      by (cases e)
         (simp_all add: in_chroot_def py_with_def suppress_enter_def suppress_exit_def)
  next
    case (Inr u)
    with Pair show ?thesis
      by (simp add: in_chroot_def py_with_def suppress_enter_def suppress_exit_def)
  qed
qed

text \<open>The concrete environment, evaluated.\<close>

lemma demo_mounted_eq:
  "demo_mounted =
     (demo_manager\<lparr>overlay_fs := Some \<lparr>lower_dirs = [demo_base], upper_dir = demo_layer_dir ''A'',
                                        work_dir = overlay_work_dir demo_info\<rparr>\<rparr>,
      demo_world\<lparr>mounts := [(overlay_mount_dir demo_info,
                              \<lparr>lower_dirs = [demo_base], upper_dir = demo_layer_dir ''A'',
                               work_dir = overlay_work_dir demo_info\<rparr>)]\<rparr>)"
  by (simp add: demo_mounted_def mount_layer_def demo_manager_def OverlayManager_init_def
        union_prims_def union_mount_def demo_world_def Let_def)

lemma demo_entered_any:
  "ovl_mount P = union_mount \<Longrightarrow>
   LayerMount_enter P (demo_session False) (demo_manager, demo_world) =
     (Inr (demo_session False),
      (fst demo_mounted,
       (snd demo_mounted)\<lparr>files := (files demo_world)
          (demo_layer_dir ''A'' @ [''etc'', ''resolv.conf''] \<mapsto> Regular [])\<rparr>))"
  by (simp add: LayerMount_enter_def demo_session_def demo_mounted_eq mount_layer_def
        fix_resolv_conf_def resolv_conf_def is_symlink_def lookup_def active_mount_def
        unlink_def touch_def
        demo_manager_def OverlayManager_init_def demo_world_def demo_info_def demo_base_def
        demo_layer_dir_def union_mount_def Let_def)

lemma demo_cache_entered:
  "PackageCacheMount_enter union_prims demo_cache_session (demo_manager, demo_world) =
     (Inr demo_cache_session,
      (demo_manager\<lparr>overlay_fs := Some \<lparr>lower_dirs = [demo_base],
                                         upper_dir = overlay_packages_dir demo_info,
                                         work_dir = overlay_work_dir demo_info\<rparr>\<rparr>,
       demo_world\<lparr>files := (files demo_world)
                     (overlay_packages_dir demo_info @ [''etc'', ''resolv.conf''] \<mapsto> Regular []),
                   mounts := [(overlay_mount_dir demo_info,
                               \<lparr>lower_dirs = [demo_base],
                                upper_dir = overlay_packages_dir demo_info,
                                work_dir = overlay_work_dir demo_info\<rparr>)]\<rparr>))"
  by (simp add: PackageCacheMount_enter_def mount_pkg_cache_def
        fix_resolv_conf_def resolv_conf_def is_symlink_def lookup_def active_mount_def
        unlink_def touch_def
        demo_manager_def OverlayManager_init_def demo_world_def demo_info_def demo_base_def
        union_prims_def union_mount_def Let_def)

subsection \<open>The layer stack\<close>

text \<open>
  C1. Let \<open>part\<close> be at position \<open>i\<close> of the part list, as \<^verbatim>\<open>list.index\<close> finds it
  (\<open>index_of_first\<close> and \<open>index_of_Some\<close>: the position where the part stands, the first
  one should the same part be listed again further on). With a base layer configured,
  whatever the package-cache flag and whatever stack the manager has recorded before,
  \<open>mount_layer\<close> calls the mount of the union-mount primitive on the stack whose lower
  directories are the reverse of \<open>[base] + [cache, if requested] + layer_dirs[0..i)\<close> and
  whose upper directory is \<open>layer_dirs[i]\<close>, at the mount point of the project, and
  records that stack. The outcome of the call is the outcome of the primitive.
\<close>

theorem mount_layer_stack:
  assumes "index_of parts part = Some i"
  shows "mount_layer P part pkg_cache
           ((OverlayManager_init part_layer_dir info parts (Some base))\<lparr>overlay_fs := cur\<rparr>, w) =
         (let fs = \<lparr>lower_dirs = rev ([base]
                                     @ (if pkg_cache then [overlay_packages_dir info] else [])
                                     @ take i (map part_layer_dir parts)),
                    upper_dir = map part_layer_dir parts ! i,
                    work_dir = overlay_work_dir info\<rparr>
          in case ovl_mount P fs (overlay_mount_dir info) w of
               (r, w') \<Rightarrow>
                 (r, ((OverlayManager_init part_layer_dir info parts (Some base))
                        \<lparr>overlay_fs := Some fs\<rparr>, w')))"
proof -
  from assms have "i < length parts"
    by (simp add: index_of_Some)
  with assms show ?thesis
    by (simp add: mount_layer_def OverlayManager_init_def Let_def)
qed

text \<open>
  The two scenarios of the specification: the parts \<open>A\<close>, \<open>B\<close>, \<open>C\<close>, mounting for
  \<open>C\<close> without the package cache and for \<open>B\<close> with it.
\<close>

theorem mount_layer_stack_witness:
  "mount_layer union_prims ''C'' False (demo_manager, demo_world) =
     (Inr (),
      (demo_manager\<lparr>overlay_fs := Some \<lparr>lower_dirs = [demo_layer_dir ''B'', demo_layer_dir ''A'', demo_base],
                                         upper_dir = demo_layer_dir ''C'',
                                         work_dir = overlay_work_dir demo_info\<rparr>\<rparr>,
       demo_world\<lparr>mounts := [(overlay_mount_dir demo_info,
                               \<lparr>lower_dirs = [demo_layer_dir ''B'', demo_layer_dir ''A'', demo_base],
                                upper_dir = demo_layer_dir ''C'',
                                work_dir = overlay_work_dir demo_info\<rparr>)]\<rparr>))
   \<and> mount_layer union_prims ''B'' True (demo_manager, demo_world) =
     (Inr (),
      (demo_manager\<lparr>overlay_fs := Some \<lparr>lower_dirs = [demo_layer_dir ''A'', overlay_packages_dir demo_info, demo_base],
                                         upper_dir = demo_layer_dir ''B'',
                                         work_dir = overlay_work_dir demo_info\<rparr>\<rparr>,
       demo_world\<lparr>mounts := [(overlay_mount_dir demo_info,
                               \<lparr>lower_dirs = [demo_layer_dir ''A'', overlay_packages_dir demo_info, demo_base],
                                upper_dir = demo_layer_dir ''B'',
                                work_dir = overlay_work_dir demo_info\<rparr>)]\<rparr>))"
  using mount_layer_stack [where i = "Suc (Suc 0)" and parts = "[''A'', ''B'', ''C'']" and part = "''C''"
          and P = union_prims and pkg_cache = False and part_layer_dir = demo_layer_dir
          and info = demo_info and base = demo_base and cur = None and w = demo_world]
        mount_layer_stack [where i = "Suc 0" and parts = "[''A'', ''B'', ''C'']" and part = "''B''"
          and P = union_prims and pkg_cache = True and part_layer_dir = demo_layer_dir
          and info = demo_info and base = demo_base and cur = None and w = demo_world]
  by (simp add: demo_manager_def OverlayManager_init_def union_prims_def union_mount_def
        demo_world_def Let_def)

subsection \<open>The mount state\<close>

text \<open>
  C2 does not hold as stated: the manager does not look at its record when it mounts. In
  the state that the mount for \<open>A\<close> has left, with a stack recorded and no unmount in
  between, a mount for \<open>B\<close> and a mount of the package cache both return: the second
  attempt is not rejected, and the world then holds two union mounts on the one mount point.
\<close>

theorem second_mount_counterexample:
  "overlay_fs (fst demo_mounted) =
     Some \<lparr>lower_dirs = [demo_base], upper_dir = demo_layer_dir ''A'',
           work_dir = overlay_work_dir demo_info\<rparr>
 \<and> fst (mount_layer union_prims ''B'' True demo_mounted) = Inr ()
 \<and> fst (mount_pkg_cache union_prims demo_mounted) = Inr ()
 \<and> mounts (snd (snd (mount_layer union_prims ''B'' True demo_mounted))) =
     [(overlay_mount_dir demo_info,
       \<lparr>lower_dirs = [demo_layer_dir ''A'', overlay_packages_dir demo_info, demo_base],
        upper_dir = demo_layer_dir ''B'', work_dir = overlay_work_dir demo_info\<rparr>),
      (overlay_mount_dir demo_info,
       \<lparr>lower_dirs = [demo_base], upper_dir = demo_layer_dir ''A'',
        work_dir = overlay_work_dir demo_info\<rparr>)]"
  by (simp add: demo_mounted_eq mount_layer_def mount_pkg_cache_def demo_manager_def
        OverlayManager_init_def union_prims_def union_mount_def demo_world_def Let_def)

text \<open>
  C2, as the code has it. Neither \<open>mount_layer\<close> nor \<open>mount_pkg_cache\<close> reads the
  record of the active stack: for every manager, a mount attempt in the mounted state has
  the outcome, and the effect on the world, that it has in the unmounted state, and where
  it returns it leaves the very state that the same call leaves from the unmounted state.
  For a manager as the constructor builds it, whatever stack it has recorded since, the
  attempt is an error only for a missing base layer, for a part that is not in the list
  (\<open>mount_layer\<close>), or for a failure of the mount of the union-mount primitive on the new
  stack; and where it returns, the record holds the new stack in place of the earlier one.
\<close>

theorem mount_disregards_record:
  "fst (mount_layer P part pkg_cache (m\<lparr>overlay_fs := cur\<rparr>, w)) =
     fst (mount_layer P part pkg_cache (m\<lparr>overlay_fs := None\<rparr>, w))
 \<and> snd (snd (mount_layer P part pkg_cache (m\<lparr>overlay_fs := cur\<rparr>, w))) =
     snd (snd (mount_layer P part pkg_cache (m\<lparr>overlay_fs := None\<rparr>, w)))
 \<and> (fst (mount_layer P part pkg_cache (m\<lparr>overlay_fs := None\<rparr>, w)) = Inr () \<longrightarrow>
      mount_layer P part pkg_cache (m\<lparr>overlay_fs := cur\<rparr>, w) =
        mount_layer P part pkg_cache (m\<lparr>overlay_fs := None\<rparr>, w))
 \<and> fst (mount_pkg_cache P (m\<lparr>overlay_fs := cur\<rparr>, w)) =
     fst (mount_pkg_cache P (m\<lparr>overlay_fs := None\<rparr>, w))
 \<and> snd (snd (mount_pkg_cache P (m\<lparr>overlay_fs := cur\<rparr>, w))) =
     snd (snd (mount_pkg_cache P (m\<lparr>overlay_fs := None\<rparr>, w)))
 \<and> (fst (mount_pkg_cache P (m\<lparr>overlay_fs := None\<rparr>, w)) = Inr () \<longrightarrow>
      mount_pkg_cache P (m\<lparr>overlay_fs := cur\<rparr>, w) =
        mount_pkg_cache P (m\<lparr>overlay_fs := None\<rparr>, w))
 \<and> (fst (mount_layer P part pkg_cache
            ((OverlayManager_init part_layer_dir info parts base)\<lparr>overlay_fs := cur\<rparr>, w)) = Inl e \<longrightarrow>
      (base = None \<and> e = RuntimeError ''request to mount overlay without a base layer'')
    \<or> (base \<noteq> None \<and> part \<notin> set parts \<and> e = ValueError)
    \<or> (\<exists>b i. base = Some b \<and> index_of parts part = Some i
          \<and> fst (ovl_mount P
                \<lparr>lower_dirs = rev ([b]
                   @ (if pkg_cache then [overlay_packages_dir info] else [])
                   @ take i (map part_layer_dir parts)),
                 upper_dir = map part_layer_dir parts ! i,
                 work_dir = overlay_work_dir info\<rparr>
                (overlay_mount_dir info) w) = Inl e))
 \<and> (fst (mount_pkg_cache P
            ((OverlayManager_init part_layer_dir info parts base)\<lparr>overlay_fs := cur\<rparr>, w)) = Inl e \<longrightarrow>
      (base = None
        \<and> e = RuntimeError ''request to mount the overlay package cache without a base layer'')
    \<or> (\<exists>b. base = Some b
          \<and> fst (ovl_mount P
                \<lparr>lower_dirs = [b], upper_dir = overlay_packages_dir info,
                 work_dir = overlay_work_dir info\<rparr>
                (overlay_mount_dir info) w) = Inl e))
 \<and> (fst (mount_layer P part pkg_cache
            ((OverlayManager_init part_layer_dir info parts base)\<lparr>overlay_fs := cur\<rparr>, w)) = Inr () \<longrightarrow>
      (\<exists>b i. base = Some b \<and> index_of parts part = Some i
          \<and> overlay_fs (fst (snd (mount_layer P part pkg_cache
               ((OverlayManager_init part_layer_dir info parts base)\<lparr>overlay_fs := cur\<rparr>, w)))) =
              Some \<lparr>lower_dirs = rev ([b]
                      @ (if pkg_cache then [overlay_packages_dir info] else [])
                      @ take i (map part_layer_dir parts)),
                    upper_dir = map part_layer_dir parts ! i,
                    work_dir = overlay_work_dir info\<rparr>))
 \<and> (fst (mount_pkg_cache P
            ((OverlayManager_init part_layer_dir info parts base)\<lparr>overlay_fs := cur\<rparr>, w)) = Inr () \<longrightarrow>
      (\<exists>b. base = Some b
          \<and> overlay_fs (fst (snd (mount_pkg_cache P
               ((OverlayManager_init part_layer_dir info parts base)\<lparr>overlay_fs := cur\<rparr>, w)))) =
              Some \<lparr>lower_dirs = [b], upper_dir = overlay_packages_dir info,
                    work_dir = overlay_work_dir info\<rparr>))"
  using mount_any_record [where P = P and part = part and pkg_cache = pkg_cache and m = m
      and cur = cur and w = w]
    mount_layer_built_error [where P = P and part = part and pkg_cache = pkg_cache
      and part_layer_dir = part_layer_dir and info = info and parts = parts and base = base
      and cur = cur and w = w and e = e]
    mount_pkg_cache_built_error [where P = P and part_layer_dir = part_layer_dir
      and info = info and parts = parts and base = base and cur = cur and w = w and e = e]
    mount_layer_built_record [where P = P and part = part and pkg_cache = pkg_cache
      and part_layer_dir = part_layer_dir and info = info and parts = parts and base = base
      and cur = cur and w = w]
    mount_pkg_cache_built_record [where P = P and part_layer_dir = part_layer_dir
      and info = info and parts = parts and base = base and cur = cur and w = w]
  by blast

theorem mount_disregards_record_witness:
  "fst (mount_layer union_prims ''B'' True (demo_manager, snd demo_mounted)) = Inr ()
 \<and> mount_layer union_prims ''B'' True demo_mounted =
     mount_layer union_prims ''B'' True (demo_manager, snd demo_mounted)
 \<and> fst (mount_pkg_cache union_prims (demo_manager, snd demo_mounted)) = Inr ()
 \<and> mount_pkg_cache union_prims demo_mounted =
     mount_pkg_cache union_prims (demo_manager, snd demo_mounted)
 \<and> overlay_fs (fst (snd (mount_layer union_prims ''B'' True demo_mounted))) =
     Some \<lparr>lower_dirs = [demo_layer_dir ''A'', overlay_packages_dir demo_info, demo_base],
           upper_dir = demo_layer_dir ''B'', work_dir = overlay_work_dir demo_info\<rparr>
 \<and> overlay_fs (fst (snd (mount_pkg_cache union_prims demo_mounted))) =
     Some \<lparr>lower_dirs = [demo_base], upper_dir = overlay_packages_dir demo_info,
           work_dir = overlay_work_dir demo_info\<rparr>
 \<and> fst (mount_layer union_prims ''Z'' True demo_mounted) = Inl ValueError
 \<and> ''Z'' \<notin> set [''A'', ''B'', ''C'']
 \<and> fst (mount_pkg_cache exiting_prims demo_mounted) = Inl (SystemExit (Some 1))
 \<and> fst (ovl_mount exiting_prims
          \<lparr>lower_dirs = [demo_base], upper_dir = overlay_packages_dir demo_info,
           work_dir = overlay_work_dir demo_info\<rparr>
          (overlay_mount_dir demo_info) (snd demo_mounted)) = Inl (SystemExit (Some 1))"
proof -
  let ?fs = "\<lparr>lower_dirs = [demo_base], upper_dir = demo_layer_dir ''A'',
               work_dir = overlay_work_dir demo_info\<rparr>"
  let ?parts = "[''A'', ''B'', ''C'']"
  let ?M = "OverlayManager_init demo_layer_dir demo_info ?parts (Some demo_base)"
  let ?w = "snd demo_mounted"
  have built: "demo_manager = ?M"
    by (simp add: demo_manager_def)
  have state: "demo_mounted = (?M\<lparr>overlay_fs := Some ?fs\<rparr>, ?w)"
    by (simp add: demo_mounted_eq built)
  have folded: "(demo_manager\<lparr>overlay_fs := Some ?fs\<rparr>, ?w) = demo_mounted"
    by (simp add: demo_mounted_eq)
  have unrecorded: "?M\<lparr>overlay_fs := None\<rparr> = ?M"
    by (simp add: OverlayManager_init_def)
  have layer: "fst (mount_layer union_prims ''B'' True (?M, ?w)) = Inr ()"
    by (simp add: mount_layer_def OverlayManager_init_def union_prims_def union_mount_def
          Let_def)
  have cache: "fst (mount_pkg_cache union_prims (?M, ?w)) = Inr ()"
    by (simp add: mount_pkg_cache_def OverlayManager_init_def union_prims_def union_mount_def
          Let_def)
  have position: "index_of ?parts ''B'' = Some (Suc 0)" and missing: "index_of ?parts ''Z'' = None"
    by simp_all
  have refused: "fst (mount_layer union_prims ''Z'' True (?M\<lparr>overlay_fs := Some ?fs\<rparr>, ?w)) =
      Inl ValueError"
    by (simp add: mount_layer_def OverlayManager_init_def)
  have failed: "fst (mount_pkg_cache exiting_prims (?M\<lparr>overlay_fs := Some ?fs\<rparr>, ?w)) =
      Inl (SystemExit (Some 1))"
    by (simp add: mount_pkg_cache_def OverlayManager_init_def exiting_prims_def raises_def
          Let_def)
  note second = mount_disregards_record [where P = union_prims and part = "''B''"
      and pkg_cache = True and m = ?M and cur = "Some ?fs" and w = ?w
      and part_layer_dir = demo_layer_dir and info = demo_info and parts = ?parts
      and base = "Some demo_base" and e = ValueError]
  note absent = mount_disregards_record [where P = union_prims and part = "''Z''"
      and pkg_cache = True and m = ?M and cur = "Some ?fs" and w = ?w
      and part_layer_dir = demo_layer_dir and info = demo_info and parts = ?parts
      and base = "Some demo_base" and e = ValueError]
  note exits = mount_disregards_record [where P = exiting_prims and part = "''B''"
      and pkg_cache = True and m = ?M and cur = "Some ?fs" and w = ?w
      and part_layer_dir = demo_layer_dir and info = demo_info and parts = ?parts
      and base = "Some demo_base" and e = "SystemExit (Some 1)"]
  from second layer cache
  have same_layer: "mount_layer union_prims ''B'' True (?M\<lparr>overlay_fs := Some ?fs\<rparr>, ?w) =
      mount_layer union_prims ''B'' True (?M, ?w)"
    and same_cache: "mount_pkg_cache union_prims (?M\<lparr>overlay_fs := Some ?fs\<rparr>, ?w) =
      mount_pkg_cache union_prims (?M, ?w)"
    unfolding unrecorded by blast+
  from second layer same_layer position
  have new_layer: "overlay_fs (fst (snd (mount_layer union_prims ''B'' True
        (?M\<lparr>overlay_fs := Some ?fs\<rparr>, ?w)))) =
      Some \<lparr>lower_dirs = [demo_layer_dir ''A'', overlay_packages_dir demo_info, demo_base],
            upper_dir = demo_layer_dir ''B'', work_dir = overlay_work_dir demo_info\<rparr>"
    by auto
  from second cache same_cache
  have new_cache: "overlay_fs (fst (snd (mount_pkg_cache union_prims
        (?M\<lparr>overlay_fs := Some ?fs\<rparr>, ?w)))) =
      Some \<lparr>lower_dirs = [demo_base], upper_dir = overlay_packages_dir demo_info,
            work_dir = overlay_work_dir demo_info\<rparr>"
    by auto
  from absent refused missing have not_listed: "''Z'' \<notin> set ?parts"
    by auto
  from exits failed
  have primitive: "fst (ovl_mount exiting_prims
        \<lparr>lower_dirs = [demo_base], upper_dir = overlay_packages_dir demo_info,
         work_dir = overlay_work_dir demo_info\<rparr>
        (overlay_mount_dir demo_info) ?w) = Inl (SystemExit (Some 1))"
    by auto
  from layer same_layer cache same_cache new_layer new_cache refused not_listed failed primitive
  show ?thesis
    unfolding built [symmetric] folded by blast
qed

text \<open>
  C5. With no stack recorded \<open>unmount\<close> raises \<^verbatim>\<open>RuntimeError\<close>, the \<open>IllegalState\<close>
  of the specification. After a mount that returned (\<open>mount_layer\<close> or
  \<open>mount_pkg_cache\<close>), and where the unmount of the union-mount primitive returns on the
  recorded stack (its failure is the subject of C10), \<open>unmount\<close> returns and clears the
  record, and a second \<open>unmount\<close> right after it raises \<^verbatim>\<open>RuntimeError\<close>.
\<close>

theorem unmount_lifecycle:
  "(overlay_fs m = None \<longrightarrow>
      unmount P (m, w) = (Inl (RuntimeError ''filesystem is not mounted''), (m, w)))
 \<and> ((mount_layer P part pkg_cache st = (Inr (), (m', u))
       \<or> mount_pkg_cache P st = (Inr (), (m', u)))
      \<and> (\<forall>fs. overlay_fs m' = Some fs \<longrightarrow> ovl_unmount P fs w = (Inr (), w')) \<longrightarrow>
      unmount P (m', w) = (Inr (), (m'\<lparr>overlay_fs := None\<rparr>, w'))
    \<and> overlay_fs (m'\<lparr>overlay_fs := None\<rparr>) = None
    \<and> unmount P (m'\<lparr>overlay_fs := None\<rparr>, w') =
        (Inl (RuntimeError ''filesystem is not mounted''), (m'\<lparr>overlay_fs := None\<rparr>, w')))"
proof -
  have once: "unmount P (m', w) = (Inr (), (m'\<lparr>overlay_fs := None\<rparr>, w'))"
    if "mount_layer P part pkg_cache st = (Inr (), (m', u))
          \<or> mount_pkg_cache P st = (Inr (), (m', u))"
      and prim: "\<forall>fs. overlay_fs m' = Some fs \<longrightarrow> ovl_unmount P fs w = (Inr (), w')"
  proof -
    from that(1) obtain fs where "overlay_fs m' = Some fs"
      using mount_layer_records [of P part pkg_cache "fst st" "snd st" "()" m' u]
        mount_pkg_cache_records [of P "fst st" "snd st" "()" m' u]
      by auto
    with prim show ?thesis by (simp add: unmount_def)
  qed
  show ?thesis
    using once by (simp add: unmount_def)
qed

theorem unmount_lifecycle_witness:
  "unmount union_prims (demo_manager, demo_world) =
     (Inl (RuntimeError ''filesystem is not mounted''), (demo_manager, demo_world))
 \<and> fst (mount_pkg_cache union_prims (demo_manager, demo_world)) = Inr ()
 \<and> unmount union_prims (snd (mount_pkg_cache union_prims (demo_manager, demo_world))) =
     (Inr (), (demo_manager, demo_world))
 \<and> unmount union_prims
       (snd (unmount union_prims (snd (mount_pkg_cache union_prims (demo_manager, demo_world))))) =
     (Inl (RuntimeError ''filesystem is not mounted''), (demo_manager, demo_world))"
  using unmount_lifecycle [where m = demo_manager and P = union_prims
          and st = "(demo_manager, demo_world)"
          and part = "''A''" and pkg_cache = False
          and m' = "fst (snd (mount_pkg_cache union_prims (demo_manager, demo_world)))"
          and u = "snd (snd (mount_pkg_cache union_prims (demo_manager, demo_world)))"
          and w = "snd (snd (mount_pkg_cache union_prims (demo_manager, demo_world)))"
          and w' = demo_world]
  by (simp add: mount_pkg_cache_def unmount_def demo_manager_def OverlayManager_init_def
        union_prims_def union_mount_def union_unmount_def demo_world_def Let_def)

text \<open>
  C10. When the unmount of the union-mount primitive raises, \<open>unmount\<close> raises the same
  exception and the recorded stack stays. A later \<open>unmount\<close> therefore passes the check of
  the record and calls the primitive again.
\<close>

theorem unmount_failure_keeps_record:
  assumes "overlay_fs m = Some fs" and "ovl_unmount P fs w = (Inl e, w')"
  shows "unmount P (m, w) = (Inl e, (m, w'))
       \<and> overlay_fs (fst (snd (unmount P (m, w)))) = Some fs
       \<and> unmount P (m, v) =
           (case ovl_unmount P fs v of
              (Inl e', v') \<Rightarrow> (Inl e', (m, v'))
            | (Inr u, v') \<Rightarrow> (Inr (), (m\<lparr>overlay_fs := None\<rparr>, v')))"
  using assms by (simp add: unmount_def)

theorem unmount_failure_keeps_record_witness:
  "overlay_fs (fst demo_mounted) =
     Some \<lparr>lower_dirs = [demo_base], upper_dir = demo_layer_dir ''A'',
           work_dir = overlay_work_dir demo_info\<rparr>
 \<and> unmount busy_prims demo_mounted = (Inl (OtherError ''target is busy''), demo_mounted)
 \<and> unmount busy_prims (snd (unmount busy_prims demo_mounted)) =
     (Inl (OtherError ''target is busy''), demo_mounted)"
  using unmount_failure_keeps_record [where m = "fst demo_mounted" and P = busy_prims
          and fs = "\<lparr>lower_dirs = [demo_base], upper_dir = demo_layer_dir ''A'',
                      work_dir = overlay_work_dir demo_info\<rparr>"
          and w = "snd demo_mounted" and w' = "snd demo_mounted"
          and e = "OtherError ''target is busy''" and v = "snd demo_mounted"]
  by (simp add: demo_mounted_def mount_layer_def demo_manager_def OverlayManager_init_def
        union_prims_def busy_prims_def union_mount_def raises_def Let_def)

text \<open>
  C7. Without a base layer \<open>mount_layer\<close> and \<open>mount_pkg_cache\<close> raise
  \<^verbatim>\<open>RuntimeError\<close>, and without a recorded stack so do \<open>refresh_packages_list\<close>,
  \<open>download_packages\<close> and \<open>install_packages\<close>, for every argument, every world and every
  behaviour of the collaborators; nothing changes.
\<close>

theorem precondition_errors:
  "(base_layer_dir m = None \<longrightarrow>
      mount_layer P part pkg_cache (m, w) =
        (Inl (RuntimeError ''request to mount overlay without a base layer''), (m, w))
    \<and> mount_pkg_cache P (m, w) =
        (Inl (RuntimeError ''request to mount the overlay package cache without a base layer''),
         (m, w)))
 \<and> (overlay_fs m = None \<longrightarrow>
      refresh_packages_list P (m, w) =
        (Inl (RuntimeError ''overlay filesystem not mounted''), (m, w))
    \<and> download_packages P package_names (m, w) =
        (Inl (RuntimeError ''overlay filesystem not mounted''), (m, w))
    \<and> install_packages P package_names (m, w) =
        (Inl (RuntimeError ''overlay filesystem not mounted''), (m, w)))"
  by (simp add: mount_layer_def mount_pkg_cache_def refresh_packages_list_def
        download_packages_def install_packages_def)

theorem precondition_errors_witness:
  "mount_layer busy_prims ''A'' True (demo_manager\<lparr>base_layer_dir := None\<rparr>, demo_world) =
     (Inl (RuntimeError ''request to mount overlay without a base layer''),
      (demo_manager\<lparr>base_layer_dir := None\<rparr>, demo_world))
 \<and> mount_pkg_cache busy_prims (demo_manager\<lparr>base_layer_dir := None\<rparr>, demo_world) =
     (Inl (RuntimeError ''request to mount the overlay package cache without a base layer''),
      (demo_manager\<lparr>base_layer_dir := None\<rparr>, demo_world))
 \<and> refresh_packages_list busy_prims (demo_manager\<lparr>base_layer_dir := None\<rparr>, demo_world) =
     (Inl (RuntimeError ''overlay filesystem not mounted''),
      (demo_manager\<lparr>base_layer_dir := None\<rparr>, demo_world))
 \<and> download_packages busy_prims [''hello''] (demo_manager\<lparr>base_layer_dir := None\<rparr>, demo_world) =
     (Inl (RuntimeError ''overlay filesystem not mounted''),
      (demo_manager\<lparr>base_layer_dir := None\<rparr>, demo_world))
 \<and> install_packages busy_prims [''hello''] (demo_manager\<lparr>base_layer_dir := None\<rparr>, demo_world) =
     (Inl (RuntimeError ''overlay filesystem not mounted''),
      (demo_manager\<lparr>base_layer_dir := None\<rparr>, demo_world))"
  using precondition_errors [where m = "demo_manager\<lparr>base_layer_dir := None\<rparr>"
          and P = busy_prims and part = "''A''" and pkg_cache = True and w = demo_world
          and package_names = "[''hello'']"]
  by (simp add: demo_manager_def OverlayManager_init_def)

subsection \<open>Scoped sessions\<close>

text \<open>
  C3. A session records the identity of the process that creates it. On scope exit
  (\<^verbatim>\<open>__exit__\<close>, of \<^verbatim>\<open>LayerMount\<close> and of \<^verbatim>\<open>PackageCacheMount\<close>), when the identity
  of the running process differs from the recorded one, the call raises \<^verbatim>\<open>SystemExit\<close>
  (\<^verbatim>\<open>sys.exit()\<close>) and leaves the manager and the world as they are, whatever the
  collaborators would do: \<open>unmount\<close> is not invoked. Only when the two identities are the
  same does the exit logic run, and it is the call of \<open>unmount\<close>.
\<close>

theorem leaked_child_exit:
  "(pid w \<noteq> lm_pid s \<longrightarrow>
      LayerMount_exit P s exc (m, w) = (Inl (SystemExit None), (m, w)))
 \<and> (pid w \<noteq> pcm_pid c \<longrightarrow>
      PackageCacheMount_exit P c exc (m, w) = (Inl (SystemExit None), (m, w)))
 \<and> (pid w = lm_pid s \<longrightarrow>
      LayerMount_exit P s exc (m, w) =
        (case unmount P (m, w) of
           (Inl e, st') \<Rightarrow> (Inl e, st')
         | (Inr u, st') \<Rightarrow> (Inr False, st')))
 \<and> (pid w = pcm_pid c \<longrightarrow>
      PackageCacheMount_exit P c exc (m, w) =
        (case unmount P (m, w) of
           (Inl e, st') \<Rightarrow> (Inl e, st')
         | (Inr u, st') \<Rightarrow> (Inr False, st')))
 \<and> (LayerMount_init P part pkg_cache st = (Inr s', st') \<longrightarrow> lm_pid s' = pid (snd st'))
 \<and> (PackageCacheMount_init P st = (Inr c', st') \<longrightarrow> pcm_pid c' = pid (snd st'))"
  by (auto simp: LayerMount_exit_def PackageCacheMount_exit_def LayerMount_init_def
        PackageCacheMount_init_def split: prod.splits sum.splits)

theorem leaked_child_exit_witness:
  "LayerMount_exit union_prims (demo_session True) None
     (fst demo_mounted, (snd demo_mounted)\<lparr>pid := 101\<rparr>) =
     (Inl (SystemExit None), (fst demo_mounted, (snd demo_mounted)\<lparr>pid := 101\<rparr>))
 \<and> PackageCacheMount_exit union_prims demo_cache_session None
     (fst demo_mounted, (snd demo_mounted)\<lparr>pid := 101\<rparr>) =
     (Inl (SystemExit None), (fst demo_mounted, (snd demo_mounted)\<lparr>pid := 101\<rparr>))
 \<and> LayerMount_exit union_prims (demo_session True) None demo_mounted =
     (Inr False, (demo_manager, demo_world))
 \<and> PackageCacheMount_exit union_prims demo_cache_session None demo_mounted =
     (Inr False, (demo_manager, demo_world))
 \<and> fst (LayerMount_init union_prims ''A'' True (demo_manager, demo_world)) =
     Inr (demo_session True)
 \<and> fst (PackageCacheMount_init union_prims (demo_manager, demo_world)) =
     Inr demo_cache_session"
  using leaked_child_exit [where w = "(snd demo_mounted)\<lparr>pid := 101\<rparr>" and m = "fst demo_mounted"
          and s = "demo_session True" and c = demo_cache_session and P = union_prims
          and exc = None and part = "''A''" and pkg_cache = True
          and st = "(demo_manager, demo_world)" and s' = "demo_session True"
          and st' = "(demo_manager, demo_world)" and c' = demo_cache_session]
        leaked_child_exit [where w = "snd demo_mounted" and m = "fst demo_mounted"
          and s = "demo_session True" and c = demo_cache_session and P = union_prims
          and exc = None and part = "''A''" and pkg_cache = True
          and st = "(demo_manager, demo_world)" and s' = "demo_session True"
          and st' = "(demo_manager, demo_world)" and c' = demo_cache_session]
  by (simp add: demo_mounted_eq demo_session_def demo_cache_session_def unmount_def
        LayerMount_init_def PackageCacheMount_init_def mkdirs_def
        demo_manager_def OverlayManager_init_def demo_world_def
        union_prims_def union_unmount_def returns_def)

text \<open>
  C4. Let the entry of a session succeed, let the body of the \<^verbatim>\<open>with\<close> statement end in
  any way, by returning or by raising, and let the process be the one that created the
  session. Then the statement invokes \<open>unmount\<close> on the state the body left. When
  \<open>unmount\<close> returns the statement ends as the body did, so an exception of the body goes
  on to the caller; when \<open>unmount\<close> raises, that exception is what the statement raises.
\<close>

theorem scoped_unmount:
  "(LayerMount_enter P s st = (Inr s', entered) \<and> body s' entered = (rb, left)
      \<and> pid (snd left) = lm_pid s \<longrightarrow>
      py_with (LayerMount_enter P s) (LayerMount_exit P s) body st =
        (case unmount P left of
           (Inl e, st') \<Rightarrow> (Inl e, st')
         | (Inr u, st') \<Rightarrow> (rb, st')))
 \<and> (PackageCacheMount_enter P c st = (Inr c', entered) \<and> cbody c' entered = (rb, left)
      \<and> pid (snd left) = pcm_pid c \<longrightarrow>
      py_with (PackageCacheMount_enter P c) (PackageCacheMount_exit P c) cbody st =
        (case unmount P left of
           (Inl e, st') \<Rightarrow> (Inl e, st')
         | (Inr u, st') \<Rightarrow> (rb, st')))"
  by (auto simp: py_with_def LayerMount_exit_def PackageCacheMount_exit_def
           split: prod.splits sum.splits)

theorem scoped_unmount_witness:
  "py_with (LayerMount_enter union_prims (demo_session False))
     (LayerMount_exit union_prims (demo_session False)) failing_step (demo_manager, demo_world) =
     (Inl (OtherError ''step failed''),
      (demo_manager,
       demo_world\<lparr>files := (files demo_world)
          (demo_layer_dir ''A'' @ [''etc'', ''resolv.conf''] \<mapsto> Regular [])\<rparr>))
 \<and> fst (py_with (LayerMount_enter busy_prims (demo_session False))
          (LayerMount_exit busy_prims (demo_session False)) failing_step
          (demo_manager, demo_world)) =
     Inl (OtherError ''target is busy'')
 \<and> py_with (PackageCacheMount_enter union_prims demo_cache_session)
     (PackageCacheMount_exit union_prims demo_cache_session) failing_step
     (demo_manager, demo_world) =
     (Inl (OtherError ''step failed''),
      (demo_manager,
       demo_world\<lparr>files := (files demo_world)
          (overlay_packages_dir demo_info @ [''etc'', ''resolv.conf''] \<mapsto> Regular [])\<rparr>))"
proof -
  let ?s = "demo_session False"
  let ?st = "(demo_manager, demo_world)"
  let ?in = "(fst demo_mounted,
              (snd demo_mounted)\<lparr>files := (files demo_world)
                 (demo_layer_dir ''A'' @ [''etc'', ''resolv.conf''] \<mapsto> Regular [])\<rparr>)"
  let ?cin = "(demo_manager\<lparr>overlay_fs := Some \<lparr>lower_dirs = [demo_base],
                                         upper_dir = overlay_packages_dir demo_info,
                                         work_dir = overlay_work_dir demo_info\<rparr>\<rparr>,
               demo_world\<lparr>files := (files demo_world)
                     (overlay_packages_dir demo_info @ [''etc'', ''resolv.conf''] \<mapsto> Regular []),
                   mounts := [(overlay_mount_dir demo_info,
                               \<lparr>lower_dirs = [demo_base],
                                upper_dir = overlay_packages_dir demo_info,
                                work_dir = overlay_work_dir demo_info\<rparr>)]\<rparr>)"
  let ?rb = "Inl (OtherError ''step failed'') :: exn + unit"
  have enter_u: "LayerMount_enter union_prims ?s ?st = (Inr ?s, ?in)"
    by (rule demo_entered_any) (simp add: union_prims_def)
  have enter_b: "LayerMount_enter busy_prims ?s ?st = (Inr ?s, ?in)"
    by (rule demo_entered_any) (simp add: busy_prims_def union_prims_def)
  have enter_c: "PackageCacheMount_enter union_prims demo_cache_session ?st =
      (Inr demo_cache_session, ?cin)"
    by (rule demo_cache_entered)
  have step: "failing_step ?s ?in = (?rb, ?in)"
    and cstep: "failing_step demo_cache_session ?cin = (?rb, ?cin)"
    by (simp_all add: failing_step_def)
  have same: "pid (snd ?in) = lm_pid ?s" and csame: "pid (snd ?cin) = pcm_pid demo_cache_session"
    by (simp_all add: demo_mounted_eq demo_session_def demo_cache_session_def demo_world_def)
  have "py_with (LayerMount_enter union_prims ?s) (LayerMount_exit union_prims ?s)
          failing_step ?st =
        (case unmount union_prims ?in of
           (Inl e, st') \<Rightarrow> (Inl e, st')
         | (Inr u, st') \<Rightarrow> (?rb, st'))"
    using scoped_unmount [where P = union_prims and s = ?s and s' = ?s and st = ?st
        and entered = ?in and left = ?in and body = failing_step and rb = ?rb]
      enter_u step same
    by blast
  moreover have "unmount union_prims ?in =
      (Inr (), (demo_manager,
         demo_world\<lparr>files := (files demo_world)
           (demo_layer_dir ''A'' @ [''etc'', ''resolv.conf''] \<mapsto> Regular [])\<rparr>))"
    by (simp add: demo_mounted_eq unmount_def union_prims_def union_unmount_def
          demo_manager_def OverlayManager_init_def demo_world_def)
  moreover have "py_with (LayerMount_enter busy_prims ?s) (LayerMount_exit busy_prims ?s)
          failing_step ?st =
        (case unmount busy_prims ?in of
           (Inl e, st') \<Rightarrow> (Inl e, st')
         | (Inr u, st') \<Rightarrow> (?rb, st'))"
    using scoped_unmount [where P = busy_prims and s = ?s and s' = ?s and st = ?st
        and entered = ?in and left = ?in and body = failing_step and rb = ?rb]
      enter_b step same
    by blast
  moreover have "fst (unmount busy_prims ?in) = Inl (OtherError ''target is busy'')"
    by (simp add: demo_mounted_eq unmount_def busy_prims_def raises_def)
  moreover have "py_with (PackageCacheMount_enter union_prims demo_cache_session)
          (PackageCacheMount_exit union_prims demo_cache_session) failing_step ?st =
        (case unmount union_prims ?cin of
           (Inl e, st') \<Rightarrow> (Inl e, st')
         | (Inr u, st') \<Rightarrow> (?rb, st'))"
    using scoped_unmount [where P = union_prims and c = demo_cache_session
        and c' = demo_cache_session and st = ?st
        and entered = ?cin and left = ?cin and cbody = failing_step and rb = ?rb]
      enter_c cstep csame
    by blast
  moreover have "unmount union_prims ?cin =
      (Inr (), (demo_manager,
         demo_world\<lparr>files := (files demo_world)
           (overlay_packages_dir demo_info @ [''etc'', ''resolv.conf''] \<mapsto> Regular [])\<rparr>))"
    by (simp add: unmount_def union_prims_def union_unmount_def
          demo_manager_def OverlayManager_init_def demo_world_def)
  ultimately show ?thesis
    by (auto split: prod.splits sum.splits)
qed

subsection \<open>Package operations\<close>

text \<open>
  C8. With a stack recorded, a \<^verbatim>\<open>SystemExit\<close> that leaves the \<^verbatim>\<open>pychroot.Chroot\<close> block
  of a package operation is discarded: the operation returns. No package operation ever raises
  \<^verbatim>\<open>SystemExit\<close>. The suppression is that of the block only: any other exception of the
  block goes on to the caller, and \<open>unmount\<close>, which does not enter the chroot, lets a
  \<^verbatim>\<open>SystemExit\<close> of its collaborator through.
\<close>

theorem system_exit_suppressed:
  "(overlay_fs m = Some fs \<longrightarrow>
      (chroot_block P (overlay_mount_dir (project_info m)) (repo_refresh_packages_list P) w =
         (Inl (SystemExit c), w') \<longrightarrow>
       refresh_packages_list P (m, w) = (Inr (), (m, w')))
    \<and> (chroot_block P (overlay_mount_dir (project_info m))
         (repo_download_packages P package_names) w = (Inl (SystemExit c), w') \<longrightarrow>
       download_packages P package_names (m, w) = (Inr (), (m, w')))
    \<and> (chroot_block P (overlay_mount_dir (project_info m))
         (install_body P package_names) w = (Inl (SystemExit c), w') \<longrightarrow>
       install_packages P package_names (m, w) = (Inr (), (m, w'))))
 \<and> fst (refresh_packages_list P (m, w)) \<noteq> Inl (SystemExit c)
 \<and> fst (download_packages P package_names (m, w)) \<noteq> Inl (SystemExit c)
 \<and> fst (install_packages P package_names (m, w)) \<noteq> Inl (SystemExit c)
 \<and> (overlay_fs m = Some fs \<and> \<not> is_SystemExit e
      \<and> chroot_block P (overlay_mount_dir (project_info m))
           (install_body P package_names) w = (Inl e, w') \<longrightarrow>
      install_packages P package_names (m, w) = (Inl e, (m, w')))
 \<and> (overlay_fs m = Some fs \<and> ovl_unmount P fs w = (Inl (SystemExit c), w') \<longrightarrow>
      unmount P (m, w) = (Inl (SystemExit c), (m, w')))"
proof -
  have a: "refresh_packages_list P (m, w) = (Inr (), (m, w'))"
    if "overlay_fs m = Some fs"
      and "chroot_block P (overlay_mount_dir (project_info m)) (repo_refresh_packages_list P) w =
         (Inl (SystemExit c), w')"
    using that by (simp add: refresh_packages_list_def in_chroot_SystemExit)
  have b: "download_packages P package_names (m, w) = (Inr (), (m, w'))"
    if "overlay_fs m = Some fs"
      and "chroot_block P (overlay_mount_dir (project_info m))
         (repo_download_packages P package_names) w = (Inl (SystemExit c), w')"
    using that by (simp add: download_packages_def in_chroot_SystemExit)
  have c: "install_packages P package_names (m, w) = (Inr (), (m, w'))"
    if "overlay_fs m = Some fs"
      and "chroot_block P (overlay_mount_dir (project_info m))
         (install_body P package_names) w = (Inl (SystemExit c), w')"
    using that by (simp add: install_packages_def in_chroot_SystemExit)
  have d: "fst (refresh_packages_list P (m, w)) \<noteq> Inl (SystemExit c)"
    using in_chroot_never_exits [of P "overlay_mount_dir (project_info m)"
        "repo_refresh_packages_list P" w c]
    by (cases "overlay_fs m") (auto simp: refresh_packages_list_def split: prod.splits)
  have e: "fst (download_packages P package_names (m, w)) \<noteq> Inl (SystemExit c)"
    using in_chroot_never_exits [of P "overlay_mount_dir (project_info m)"
        "repo_download_packages P package_names" w c]
    by (cases "overlay_fs m") (auto simp: download_packages_def split: prod.splits)
  have f: "fst (install_packages P package_names (m, w)) \<noteq> Inl (SystemExit c)"
    using in_chroot_never_exits [of P "overlay_mount_dir (project_info m)"
        "install_body P package_names" w c]
    by (cases "overlay_fs m") (auto simp: install_packages_def split: prod.splits)
  have g: "install_packages P package_names (m, w) = (Inl e, (m, w'))"
    if "overlay_fs m = Some fs" and "\<not> is_SystemExit e"
      and "chroot_block P (overlay_mount_dir (project_info m))
           (install_body P package_names) w = (Inl e, w')"
    using that by (simp add: install_packages_def in_chroot_other)
  have h: "unmount P (m, w) = (Inl (SystemExit c), (m, w'))"
    if "overlay_fs m = Some fs" and "ovl_unmount P fs w = (Inl (SystemExit c), w')"
    using that by (simp add: unmount_def)
  from a b c d e f g h show ?thesis by blast
qed

theorem system_exit_suppressed_witness:
  "refresh_packages_list exiting_prims demo_mounted = (Inr (), demo_mounted)
 \<and> download_packages exiting_prims [''hello''] demo_mounted = (Inr (), demo_mounted)
 \<and> install_packages exiting_prims [''hello''] demo_mounted = (Inr (), demo_mounted)
 \<and> unmount exiting_prims demo_mounted = (Inl (SystemExit (Some 1)), demo_mounted)"
  using system_exit_suppressed [where m = "fst demo_mounted" and w = "snd demo_mounted"
          and w' = "snd demo_mounted" and P = exiting_prims and c = "Some 1"
          and package_names = "[''hello'']" and e = "OtherError ''unused''"
          and fs = "\<lparr>lower_dirs = [demo_base], upper_dir = demo_layer_dir ''A'',
                      work_dir = overlay_work_dir demo_info\<rparr>"]
  by (simp add: demo_mounted_eq chroot_block_def py_with_def install_body_def
        exiting_prims_def union_prims_def raises_def returns_def leaves_def)

subsection \<open>The resolver configuration file\<close>

text \<open>
  C9. When \<^verbatim>\<open>etc/resolv.conf\<close> under the mount point is a symbolic link,
  \<open>fix_resolv_conf\<close> returns and the path then names an empty regular file; when the path
  names a regular file or nothing, \<open>fix_resolv_conf\<close> returns and changes nothing.
\<close>

theorem fix_resolv_conf_effect:
  "(lookup w (resolv_conf m) = Some (Symlink t) \<longrightarrow>
      (\<exists>w'. fix_resolv_conf (m, w) = (Inr (), (m, w'))
            \<and> lookup w' (resolv_conf m) = Some (Regular [])))
 \<and> (lookup w (resolv_conf m) = None \<or> lookup w (resolv_conf m) = Some (Regular c) \<longrightarrow>
      fix_resolv_conf (m, w) = (Inr (), (m, w)))"
proof (intro conjI impI)
  assume link: "lookup w (resolv_conf m) = Some (Symlink t)"
  then obtain w1 where w1: "unlink (resolv_conf m) w = (Inr (), w1)"
    using unlink_symlink by blast
  then have "lookup w1 (resolv_conf m) = None"
    by (rule lookup_unlink)
  then obtain w2 where "touch (resolv_conf m) w1 = (Inr (), w2)"
    and "lookup w2 (resolv_conf m) = Some (Regular [])"
    using touch_creates by blast
  with link w1 show "\<exists>w'. fix_resolv_conf (m, w) = (Inr (), (m, w'))
      \<and> lookup w' (resolv_conf m) = Some (Regular [])"
    by (simp add: fix_resolv_conf_def is_symlink_def)
next
  assume "lookup w (resolv_conf m) = None \<or> lookup w (resolv_conf m) = Some (Regular c)"
  then show "fix_resolv_conf (m, w) = (Inr (), (m, w))"
    by (auto simp: fix_resolv_conf_def is_symlink_def)
qed

theorem fix_resolv_conf_effect_witness:
  "lookup (snd demo_mounted) (resolv_conf (fst demo_mounted)) =
     Some (Symlink [''run'', ''systemd'', ''resolve'', ''stub-resolv.conf''])
 \<and> fst (fix_resolv_conf demo_mounted) = Inr ()
 \<and> lookup (snd (snd (fix_resolv_conf demo_mounted))) (resolv_conf (fst demo_mounted)) =
     Some (Regular [])
 \<and> lookup demo_world (resolv_conf demo_manager) = None
 \<and> fix_resolv_conf (demo_manager, demo_world) = (Inr (), (demo_manager, demo_world))
 \<and> lookup demo_resolved (resolv_conf demo_manager) = Some (Regular ''nameserver 10.0.0.1'')
 \<and> fix_resolv_conf (demo_manager, demo_resolved) = (Inr (), (demo_manager, demo_resolved))"
proof -
  have link: "lookup (snd demo_mounted) (resolv_conf (fst demo_mounted)) =
      Some (Symlink [''run'', ''systemd'', ''resolve'', ''stub-resolv.conf''])"
    by (simp add: demo_mounted_eq resolv_conf_def lookup_def active_mount_def
          demo_manager_def OverlayManager_init_def demo_world_def demo_info_def demo_base_def
          demo_layer_dir_def)
  have absent: "lookup demo_world (resolv_conf demo_manager) = None"
    by (simp add: resolv_conf_def lookup_def active_mount_def
          demo_manager_def OverlayManager_init_def demo_world_def demo_info_def)
  have regular: "lookup demo_resolved (resolv_conf demo_manager) =
      Some (Regular ''nameserver 10.0.0.1'')"
    by (simp add: resolv_conf_def lookup_def active_mount_def demo_resolved_def
          demo_manager_def OverlayManager_init_def demo_world_def demo_info_def)
  from link
    fix_resolv_conf_effect [where w = "snd demo_mounted" and m = "fst demo_mounted"
      and t = "[''run'', ''systemd'', ''resolve'', ''stub-resolv.conf'']"]
  obtain w' where "fix_resolv_conf (fst demo_mounted, snd demo_mounted) =
        (Inr (), (fst demo_mounted, w'))"
      and "lookup w' (resolv_conf (fst demo_mounted)) = Some (Regular [])"
    by blast
  then have fixed: "fst (fix_resolv_conf demo_mounted) = Inr ()"
    "lookup (snd (snd (fix_resolv_conf demo_mounted))) (resolv_conf (fst demo_mounted)) =
       Some (Regular [])"
    by simp_all
  from absent fix_resolv_conf_effect [where w = demo_world and m = demo_manager]
  have untouched: "fix_resolv_conf (demo_manager, demo_world) =
      (Inr (), (demo_manager, demo_world))"
    by blast
  from regular
    fix_resolv_conf_effect [where w = demo_resolved and m = demo_manager
      and c = "''nameserver 10.0.0.1''"]
  have kept: "fix_resolv_conf (demo_manager, demo_resolved) =
      (Inr (), (demo_manager, demo_resolved))"
    by blast
  from link fixed absent untouched regular kept show ?thesis
    by blast
qed

text \<open>
  C6. The fix-up acts through the mount point, so what it writes lands on the upper directory
  of the stack that is mounted. In a \<^verbatim>\<open>PackageCacheMount\<close> session that is the
  package-cache directory (\<open>demo_cache_entered\<close>). In a \<^verbatim>\<open>LayerMount\<close> session it is the
  layer directory of the part: with a base layer whose \<^verbatim>\<open>etc/resolv.conf\<close> is a symbolic
  link, entering a session for part \<open>A\<close>, with or without the package cache, creates the
  empty \<^verbatim>\<open>etc/resolv.conf\<close> in the layer directory of \<open>A\<close> and nothing in the
  package-cache directory.
\<close>

theorem resolver_fixup_on_part_layer:
  "fst (LayerMount_enter union_prims (demo_session False) (demo_manager, demo_world)) =
     Inr (demo_session False)
 \<and> files demo_world (demo_layer_dir ''A'' @ [''etc'', ''resolv.conf'']) = None
 \<and> files (snd (snd (LayerMount_enter union_prims (demo_session False)
                      (demo_manager, demo_world))))
       (demo_layer_dir ''A'' @ [''etc'', ''resolv.conf'']) = Some (Regular [])
 \<and> files (snd (snd (LayerMount_enter union_prims (demo_session False)
                      (demo_manager, demo_world))))
       (overlay_packages_dir demo_info @ [''etc'', ''resolv.conf'']) = None
 \<and> fst (LayerMount_enter union_prims (demo_session True) (demo_manager, demo_world)) =
     Inr (demo_session True)
 \<and> files (snd (snd (LayerMount_enter union_prims (demo_session True)
                      (demo_manager, demo_world))))
       (demo_layer_dir ''A'' @ [''etc'', ''resolv.conf'']) = Some (Regular [])
 \<and> files (snd (snd (LayerMount_enter union_prims (demo_session True)
                      (demo_manager, demo_world))))
       (overlay_packages_dir demo_info @ [''etc'', ''resolv.conf'']) = None"
  by (simp add: LayerMount_enter_def demo_session_def mount_layer_def
        fix_resolv_conf_def resolv_conf_def is_symlink_def lookup_def active_mount_def
        unlink_def touch_def
        demo_manager_def OverlayManager_init_def demo_world_def demo_info_def demo_base_def
        demo_layer_dir_def union_prims_def union_mount_def Let_def)

end
